theory Spec2Isabelle
  imports Main
begin

section \<open>Python strings\<close>

text \<open>
  A Python \<open>str\<close> is modelled as a \<open>string\<close>: the list of its characters, each an
  8-bit \<open>char\<close> read as the code point (text within Latin-1). The operations below are
  the ones the repository calls on strings.
\<close>

text \<open>\<open>s.startswith(p)\<close> and \<open>s.endswith(p)\<close>.\<close>

definition startswith :: "string \<Rightarrow> string \<Rightarrow> bool" where
  "startswith s p = (take (length p) s = p)"

definition endswith :: "string \<Rightarrow> string \<Rightarrow> bool" where
  "endswith s p = (length p \<le> length s \<and> drop (length s - length p) s = p)"

text \<open>\<open>sub in s\<close>: \<open>sub\<close> occurs in \<open>s\<close> as a contiguous run of characters.\<close>

fun py_in :: "string \<Rightarrow> string \<Rightarrow> bool" where
  "py_in sub [] = (sub = [])"
| "py_in sub (c # cs) = (startswith (c # cs) sub \<or> py_in sub cs)"

text \<open>\<open>s.split(sep)\<close> for a separator of one character: never the empty list.\<close>

fun py_split :: "char \<Rightarrow> string \<Rightarrow> string list" where
  "py_split sep [] = [[]]"
| "py_split sep (c # cs) =
     (if c = sep then [] # py_split sep cs
      else (case py_split sep cs of
              [] \<Rightarrow> [[c]]
            | x # xs \<Rightarrow> (c # x) # xs))"

text \<open>\<open>sep.join(comps)\<close> for a separator of one character.\<close>

fun py_join :: "char \<Rightarrow> string list \<Rightarrow> string" where
  "py_join sep [] = []"
| "py_join sep [x] = x"
| "py_join sep (x # y # ys) = x @ sep # py_join sep (y # ys)"

text \<open>
  \<open>str.isspace\<close> on one character, for the code points below 256: the ASCII white
  space and separators 9 to 13 and 28 to 32, NEL (133) and the no-break space (160).
\<close>

definition isspace :: "char \<Rightarrow> bool" where
  "isspace c =
     (let n = (of_char c :: nat)
      in (9 \<le> n \<and> n \<le> 13) \<or> (28 \<le> n \<and> n \<le> 32) \<or> n = 133 \<or> n = 160)"

text \<open>\<open>s.strip()\<close>: white space removed at both ends.\<close>

definition strip :: "string \<Rightarrow> string" where
  "strip s = rev (dropWhile isspace (rev (dropWhile isspace s)))"

text \<open>
  \<open>s.replace(old, new)\<close> for a non-empty \<open>old\<close>: every occurrence, left to right,
  without overlap. The counter is the number of characters of the occurrence just
  replaced that are still to be skipped.
\<close>

fun replace_from :: "string \<Rightarrow> string \<Rightarrow> nat \<Rightarrow> string \<Rightarrow> string" where
  "replace_from old new k [] = []"
| "replace_from old new (Suc k) (c # cs) = replace_from old new k cs"
| "replace_from old new 0 (c # cs) =
     (if startswith (c # cs) old then new @ replace_from old new (length old - 1) cs
      else c # replace_from old new 0 cs)"

definition replace :: "string \<Rightarrow> string \<Rightarrow> string \<Rightarrow> string" where
  "replace old new s = replace_from old new 0 s"

section \<open>Exceptions and values\<close>

text \<open>
  The exceptions the code raises or catches, all subclasses of \<open>Exception\<close>. The
  string is the message; \<open>HTTPException\<close> carries the status code and the detail.
\<close>

datatype exn =
    PermissionError string
  | FileNotFoundError string
  | NotImplementedError string
  | TypeError string
  | KeyError string
  | AttributeError string
  | HTTPException nat string
  | OtherException string

text \<open>The values passed to handlers: \<open>isinstance(arg, str)\<close> holds of \<open>Str\<close> only.\<close>

datatype pyval = Str string | IntV int | BoolV bool | NoneV

section \<open>posixpath\<close>

text \<open>
  \<open>os.path.abspath\<close> of the standard library (posixpath), which \<open>validate_path\<close>
  calls: \<open>normpath(join(os.getcwd(), path))\<close> for a relative path, \<open>normpath(path)\<close>
  for an absolute one. It works on the text of the path only and reads no file system,
  so it follows no symbolic link.
\<close>

definition sep :: char where
  "sep = CHR ''/''"

definition initial_slashes :: "string \<Rightarrow> nat" where
  "initial_slashes path =
     (if startswith path [sep] then
        (if startswith path [sep, sep] \<and> \<not> startswith path [sep, sep, sep] then 2 else 1)
      else 0)"

text \<open>
  The loop of \<open>normpath\<close> over the components, \<open>new_comps\<close> being the list built so
  far.
\<close>

fun norm_comps :: "nat \<Rightarrow> string list \<Rightarrow> string list \<Rightarrow> string list" where
  "norm_comps i [] new_comps = new_comps"
| "norm_comps i (component # comps) new_comps =
     (if component = [] \<or> component = ''.'' then norm_comps i comps new_comps
      else if component \<noteq> ''..'' \<or> (i = 0 \<and> new_comps = [])
              \<or> (new_comps \<noteq> [] \<and> last new_comps = ''..'')
        then norm_comps i comps (new_comps @ [component])
      else if new_comps \<noteq> [] then norm_comps i comps (butlast new_comps)
      else norm_comps i comps new_comps)"

definition normpath :: "string \<Rightarrow> string" where
  "normpath path =
     (if path = [] then ''.''
      else
        let i = initial_slashes path;
            comps = norm_comps i (py_split sep path) [];
            joined = py_join sep comps;
            res = (if 0 < i then replicate i sep @ joined else joined)
        in if res = [] then ''.'' else res)"

definition isabs :: "string \<Rightarrow> bool" where
  "isabs s = startswith s [sep]"

text \<open>\<open>os.path.join(a, b)\<close> with two arguments.\<close>

definition join2 :: "string \<Rightarrow> string \<Rightarrow> string" where
  "join2 a b =
     (if startswith b [sep] then b
      else if a = [] \<or> endswith a [sep] then a @ b
      else a @ [sep] @ b)"

text \<open>
  \<open>getcwd\<close> is the working directory of the process, an absolute path; \<open>None\<close> when
  \<open>os.getcwd()\<close> raises (the directory was removed).
\<close>

definition abspath :: "string option \<Rightarrow> string \<Rightarrow> exn + string" where
  "abspath getcwd path =
     (if \<not> isabs path then
        (case getcwd of
           None \<Rightarrow> Inl (FileNotFoundError ''getcwd'')
         | Some cwd \<Rightarrow> Inr (normpath (join2 cwd path)))
      else Inr (normpath path))"

section \<open>tasksB: the sandbox predicate\<close>

text \<open>
  \<open>validate_path\<close> (tasksB.py, lines 9 to 19): both paths made absolute, then a
  comparison of text, \<open>abs_path.startswith(data_dir)\<close>; any exception gives False.
\<close>

definition validate_path :: "string option \<Rightarrow> string \<Rightarrow> bool" where
  "validate_path getcwd filepath =
     (case abspath getcwd filepath of
        Inl e \<Rightarrow> False
      | Inr abs_path \<Rightarrow>
          (case abspath getcwd ''/data'' of
             Inl e \<Rightarrow> False
           | Inr data_dir \<Rightarrow> startswith abs_path data_dir))"

text \<open>
  The predicate in the words of the specification: the canonical absolute form of the
  path is the sandbox root or a descendant of it, that is, the root followed by a
  separator and more.
\<close>

definition is_root_or_descendant :: "string \<Rightarrow> string \<Rightarrow> bool" where
  "is_root_or_descendant root p = (p = root \<or> startswith p (root @ [sep]))"

definition isWithinSandbox :: "string option \<Rightarrow> string \<Rightarrow> bool" where
  "isWithinSandbox getcwd path =
     (case abspath getcwd path of
        Inl e \<Rightarrow> False
      | Inr canonical \<Rightarrow> is_root_or_descendant ''/data'' canonical)"

section \<open>tasksB: the security gate\<close>

text \<open>
  A Python function as a value: its \<open>__name__\<close> and what a call does. A call takes the
  positional arguments, the keyword arguments in the order of the dictionary, and the
  state of the world; it returns the value or the exception raised, and the new state.
\<close>

record 's pyfunc =
  fname :: string
  fcall :: "pyval list \<Rightarrow> (string \<times> pyval) list \<Rightarrow> 's \<Rightarrow> (exn + pyval) \<times> 's"

text \<open>The exception of line 29: \<open>f"Access denied: {arg} is outside /data directory"\<close>.\<close>

definition access_denied :: "string \<Rightarrow> exn" where
  "access_denied arg = PermissionError (''Access denied: '' @ arg @ '' is outside /data directory'')"

text \<open>
  The loop of \<open>wrapper\<close> over \<open>args + tuple(kwargs.values())\<close>: the exception raised
  at the first string argument that holds the separator and fails \<open>validate_path\<close>, or
  \<open>None\<close> when the loop ends.
\<close>

fun check_args :: "string option \<Rightarrow> pyval list \<Rightarrow> exn option" where
  "check_args getcwd [] = None"
| "check_args getcwd (Str arg # rest) =
     (if sep \<in> set arg then
        (if \<not> validate_path getcwd arg then Some (access_denied arg)
         else check_args getcwd rest)
      else check_args getcwd rest)"
| "check_args getcwd (v # rest) = check_args getcwd rest"

text \<open>
  \<open>security_check\<close> (lines 21 to 31). \<open>@wraps(func)\<close> gives the wrapper the name of
  \<open>func\<close>; the wrapper raises before \<open>func\<close> is called, or returns \<open>func(*args, **kwargs)\<close>.
\<close>

definition security_check :: "string option \<Rightarrow> 's pyfunc \<Rightarrow> 's pyfunc" where
  "security_check getcwd func =
     \<lparr>fname = fname func,
      fcall = (\<lambda>args kwargs s.
        case check_args getcwd (args @ map snd kwargs) of
          Some e \<Rightarrow> (Inl e, s)
        | None \<Rightarrow> fcall func args kwargs s)\<rparr>"

section \<open>tasksB: handlers\<close>

text \<open>
  What the handlers reach outside the process. \<open>fs x\<close> is what \<open>open(x).read()\<close>
  returns or raises; \<open>mkdir_ok d\<close> tells whether \<open>os.makedirs(d, exist_ok=True)\<close>
  succeeds; \<open>writable x\<close> whether \<open>open(x, 'w')\<close> and the write succeed; \<open>http u\<close> is the
  text of the response to \<open>requests.get(u)\<close>, or what the request or
  \<open>raise_for_status\<close> raises; \<open>whisper a\<close> is the text
  \<open>openai.Audio.transcribe\<close> returns for the audio \<open>a\<close>, or what it raises;
  \<open>importable m\<close> tells whether \<open>import m\<close> succeeds. \<open>requests_sent\<close> records the
  requests issued and \<open>stdout\<close> the lines printed.
\<close>

record world =
  fs :: "pyval \<Rightarrow> exn + string"
  mkdir_ok :: "string \<Rightarrow> bool"
  writable :: "pyval \<Rightarrow> bool"
  http :: "pyval \<Rightarrow> exn + string"
  whisper :: "string \<Rightarrow> exn + string"
  importable :: "string \<Rightarrow> bool"
  requests_sent :: "pyval list"
  stdout :: "string list"

text \<open>
  \<open>str(e)\<close>: the message of a built-in exception. The text of a framework
  \<open>HTTPException\<close> is fixed by the framework, not by this repository, so it is the
  parameter \<open>http_str\<close>.
\<close>

fun str_exc :: "(nat \<Rightarrow> string \<Rightarrow> string) \<Rightarrow> exn \<Rightarrow> string" where
  "str_exc http_str (PermissionError m) = m"
| "str_exc http_str (FileNotFoundError m) = m"
| "str_exc http_str (NotImplementedError m) = m"
| "str_exc http_str (TypeError m) = m"
| "str_exc http_str (KeyError m) = m"
| "str_exc http_str (AttributeError m) = m"
| "str_exc http_str (HTTPException code detail) = http_str code detail"
| "str_exc http_str (OtherException m) = m"

text \<open>\<open>os.path.dirname\<close>.\<close>

definition dirname :: "string \<Rightarrow> string" where
  "dirname p =
     (let head = rev (dropWhile (\<lambda>c. c \<noteq> sep) (rev p))
      in if head \<noteq> [] \<and> head \<noteq> replicate (length head) sep
         then rev (dropWhile (\<lambda>c. c = sep) (rev head))
         else head)"

text \<open>
  Binding the arguments of a call to the parameters of a function without defaults:
  positional arguments first, the remaining parameters by keyword; \<open>None\<close> when Python
  raises TypeError (too many, missing, unexpected or repeated arguments).
\<close>

definition bind_params :: "string list \<Rightarrow> pyval list \<Rightarrow> (string \<times> pyval) list \<Rightarrow> pyval list option" where
  "bind_params names args kwargs =
     (if length names < length args then None
      else
        let rest = drop (length args) names
        in if distinct (map fst kwargs) \<and> set (map fst kwargs) = set rest
           then Some (args @ map (\<lambda>n. case map_of kwargs n of Some v \<Rightarrow> v | None \<Rightarrow> NoneV) rest)
           else None)"

text \<open>The file written by \<open>open(path, 'w')\<close> and \<open>write(text)\<close>, or the failure of the open.\<close>

definition write_file :: "pyval \<Rightarrow> string \<Rightarrow> world \<Rightarrow> (exn + unit) \<times> world" where
  "write_file path text w =
     (if writable w path then (Inr (), w\<lparr>fs := (fs w)(path := Inr text)\<rparr>)
      else (Inl (OtherException ''cannot open file for writing''), w))"

text \<open>The \<open>try\<close> block of \<open>fetch_api_data\<close> (lines 41 to 48).\<close>

definition fetch_api_data_try :: "pyval \<Rightarrow> pyval \<Rightarrow> world \<Rightarrow> (exn + unit) \<times> world" where
  "fetch_api_data_try url save_path w =
     (if \<not> importable w ''requests'' then (Inl (OtherException ''No module named requests''), w)
      else
        let w1 = w\<lparr>requests_sent := requests_sent w @ [url]\<rparr>
        in case http w url of
             Inl e \<Rightarrow> (Inl e, w1)
           | Inr text \<Rightarrow>
               (case save_path of
                  Str p \<Rightarrow>
                    if dirname p = [] \<or> \<not> mkdir_ok w1 (dirname p)
                    then (Inl (FileNotFoundError (dirname p)), w1)
                    else write_file save_path text w1
                | _ \<Rightarrow> (Inl (TypeError ''expected str, bytes or os.PathLike object''), w1)))"

text \<open>\<open>fetch_api_data\<close> before decoration: every exception of the block is printed and gives False.\<close>

definition fetch_api_data_func :: "(nat \<Rightarrow> string \<Rightarrow> string) \<Rightarrow> world pyfunc" where
  "fetch_api_data_func http_str =
     \<lparr>fname = ''fetch_api_data'',
      fcall = (\<lambda>args kwargs w.
        case bind_params [''url'', ''save_path''] args kwargs of
          Some [url, save_path] \<Rightarrow>
            (case fetch_api_data_try url save_path w of
               (Inr u, w') \<Rightarrow> (Inr (BoolV True), w')
             | (Inl e, w') \<Rightarrow>
                 (Inr (BoolV False),
                  w'\<lparr>stdout := stdout w' @ [''Error fetching API data: '' @ str_exc http_str e]\<rparr>))
        | _ \<Rightarrow> (Inl (TypeError ''fetch_api_data(): bad arguments''), w))\<rparr>"

text \<open>\<open>fetch_api_data\<close> as the module exports it (lines 34 and 35).\<close>

definition fetch_api_data :: "string option \<Rightarrow> (nat \<Rightarrow> string \<Rightarrow> string) \<Rightarrow> world pyfunc" where
  "fetch_api_data getcwd http_str = security_check getcwd (fetch_api_data_func http_str)"

text \<open>The \<open>try\<close> block of \<open>transcribe_audio\<close> (lines 158 to 165).\<close>

definition transcribe_audio_try :: "pyval \<Rightarrow> pyval \<Rightarrow> world \<Rightarrow> (exn + unit) \<times> world" where
  "transcribe_audio_try audio_path output_path w =
     (if \<not> importable w ''openai'' then (Inl (OtherException ''No module named openai''), w)
      else
        case fs w audio_path of
          Inl e \<Rightarrow> (Inl e, w)
        | Inr audio \<Rightarrow>
            (case whisper w audio of
               Inl e \<Rightarrow> (Inl e, w)
             | Inr text \<Rightarrow> write_file output_path text w))"

definition transcribe_audio_func :: "(nat \<Rightarrow> string \<Rightarrow> string) \<Rightarrow> world pyfunc" where
  "transcribe_audio_func http_str =
     \<lparr>fname = ''transcribe_audio'',
      fcall = (\<lambda>args kwargs w.
        case bind_params [''audio_path'', ''output_path''] args kwargs of
          Some [audio_path, output_path] \<Rightarrow>
            (case transcribe_audio_try audio_path output_path w of
               (Inr u, w') \<Rightarrow> (Inr (BoolV True), w')
             | (Inl e, w') \<Rightarrow>
                 (Inr (BoolV False),
                  w'\<lparr>stdout := stdout w' @ [''Error transcribing audio: '' @ str_exc http_str e]\<rparr>))
        | _ \<Rightarrow> (Inl (TypeError ''transcribe_audio(): bad arguments''), w))\<rparr>"

definition transcribe_audio :: "string option \<Rightarrow> (nat \<Rightarrow> string \<Rightarrow> string) \<Rightarrow> world pyfunc" where
  "transcribe_audio getcwd http_str = security_check getcwd (transcribe_audio_func http_str)"

section \<open>tasksB: the CSV filter endpoint\<close>














text \<open>\<open>str(value)\<close> on the values of the JSON payload.\<close>

fun str_nat :: "nat \<Rightarrow> string" where
  "str_nat n =
     (if n < 10 then [char_of (48 + n)]
      else str_nat (n div 10) @ [char_of (48 + n mod 10)])"

declare str_nat.simps [simp del]










section \<open>server: the dispatcher and the read endpoint\<close>

text \<open>
  The module \<open>tasksA\<close> is imported by server.py; its ten functions take no argument.
  Each is a parameter here: what the call returns or raises, and the new state.
\<close>

record 's tasksA =
  A1 :: "'s \<Rightarrow> (exn + pyval) \<times> 's"
  A2 :: "'s \<Rightarrow> (exn + pyval) \<times> 's"
  A3 :: "'s \<Rightarrow> (exn + pyval) \<times> 's"
  A4 :: "'s \<Rightarrow> (exn + pyval) \<times> 's"
  A5 :: "'s \<Rightarrow> (exn + pyval) \<times> 's"
  A6 :: "'s \<Rightarrow> (exn + pyval) \<times> 's"
  A7 :: "'s \<Rightarrow> (exn + pyval) \<times> 's"
  A8 :: "'s \<Rightarrow> (exn + pyval) \<times> 's"
  A9 :: "'s \<Rightarrow> (exn + pyval) \<times> 's"
  A10 :: "'s \<Rightarrow> (exn + pyval) \<times> 's"

text \<open>The dictionary returned: \<open>{"status": ..., "result": ...}\<close> or \<open>{"status": ...}\<close>.\<close>

record envelope =
  status :: string
  result :: "pyval option"

text \<open>\<open>return {"status": "success", "result": f()}\<close>.\<close>

definition success_result :: "('s \<Rightarrow> (exn + pyval) \<times> 's) \<Rightarrow> 's \<Rightarrow> (exn + envelope) \<times> 's" where
  "success_result f s =
     (case f s of
        (Inl e, s') \<Rightarrow> (Inl e, s')
      | (Inr v, s') \<Rightarrow> (Inr \<lparr>status = ''success'', result = Some v\<rparr>, s'))"

text \<open>\<open>f()\<close> followed by \<open>return {"status": "success"}\<close>.\<close>

definition success_only :: "('s \<Rightarrow> (exn + pyval) \<times> 's) \<Rightarrow> 's \<Rightarrow> (exn + envelope) \<times> 's" where
  "success_only f s =
     (case f s of
        (Inl e, s') \<Rightarrow> (Inl e, s')
      | (Inr v, s') \<Rightarrow> (Inr \<lparr>status = ''success'', result = None\<rparr>, s'))"

text \<open>The first marker, \<open>Install\<close> and \<open>uv\<close> between backquotes.\<close>

definition install_uv :: string where
  "install_uv = ''Install '' @ [CHR 0x60] @ ''uv'' @ [CHR 0x60]"

text \<open>The \<open>try\<close> block of \<open>run_task\<close> (lines 29 to 64); \<open>query\<close> is the parameter \<open>task\<close> of the request, if any.\<close>

definition run_task_try :: "'s tasksA \<Rightarrow> string option \<Rightarrow> 's \<Rightarrow> (exn + envelope) \<times> 's" where
  "run_task_try T query s =
     (let task = strip (case query of None \<Rightarrow> [] | Some t \<Rightarrow> t)
      in if py_in install_uv task then success_result (A1 T) s
         else if py_in ''format.md'' task then success_only (A2 T) s
         else if py_in ''dates.txt'' task \<and> py_in ''dates-wednesdays.txt'' task
           then success_only (A3 T) s
         else if py_in ''contacts.json'' task \<and> py_in ''contacts-sorted.json'' task
           then success_only (A4 T) s
         else if py_in ''logs-recent.txt'' task then success_only (A5 T) s
         else if py_in ''docs/index.json'' task then success_only (A6 T) s
         else if py_in ''email.txt'' task \<and> py_in ''email-sender.txt'' task
           then success_only (A7 T) s
         else if py_in ''credit_card.png'' task \<and> py_in ''credit-card.txt'' task
           then success_only (A8 T) s
         else if py_in ''comments.txt'' task \<and> py_in ''comments-similar.txt'' task
           then success_only (A9 T) s
         else if py_in ''ticket-sales.db'' task \<and> py_in ''ticket-sales-gold.txt'' task
           then success_only (A10 T) s
         else (Inl (HTTPException 400 ''Unknown task''), s))"

text \<open>\<open>run_task\<close> (lines 26 to 66): every exception of the block is raised again as an \<open>HTTPException\<close> of status 400.\<close>

definition run_task ::
  "(nat \<Rightarrow> string \<Rightarrow> string) \<Rightarrow> 's tasksA \<Rightarrow> string option \<Rightarrow> 's \<Rightarrow> (exn + envelope) \<times> 's" where
  "run_task http_str T query s =
     (case run_task_try T query s of
        (Inl e, s') \<Rightarrow> (Inl (HTTPException 400 (str_exc http_str e)), s')
      | (Inr env, s') \<Rightarrow> (Inr env, s'))"

text \<open>
  The registry in the words of the specification: the operations in the order of
  registration, each with the markers that must all occur in the description; the
  first full match wins.
\<close>

datatype operation =
  Op_A1 | Op_A2 | Op_A3 | Op_A4 | Op_A5 | Op_A6 | Op_A7 | Op_A8 | Op_A9 | Op_A10

definition registry :: "(string list \<times> operation) list" where
  "registry =
     [([install_uv], Op_A1),
      ([''format.md''], Op_A2),
      ([''dates.txt'', ''dates-wednesdays.txt''], Op_A3),
      ([''contacts.json'', ''contacts-sorted.json''], Op_A4),
      ([''logs-recent.txt''], Op_A5),
      ([''docs/index.json''], Op_A6),
      ([''email.txt'', ''email-sender.txt''], Op_A7),
      ([''credit_card.png'', ''credit-card.txt''], Op_A8),
      ([''comments.txt'', ''comments-similar.txt''], Op_A9),
      ([''ticket-sales.db'', ''ticket-sales-gold.txt''], Op_A10)]"

definition spec_matches :: "string \<Rightarrow> string list \<times> operation \<Rightarrow> bool" where
  "spec_matches description spec = list_all (\<lambda>m. py_in m description) (fst spec)"

definition resolve :: "(string list \<times> operation) list \<Rightarrow> string \<Rightarrow> (string list \<times> operation) option" where
  "resolve reg description = find (spec_matches description) reg"

fun invoke :: "'s tasksA \<Rightarrow> operation \<Rightarrow> 's \<Rightarrow> (exn + envelope) \<times> 's" where
  "invoke T Op_A1 s = success_result (A1 T) s"
| "invoke T Op_A2 s = success_only (A2 T) s"
| "invoke T Op_A3 s = success_only (A3 T) s"
| "invoke T Op_A4 s = success_only (A4 T) s"
| "invoke T Op_A5 s = success_only (A5 T) s"
| "invoke T Op_A6 s = success_only (A6 T) s"
| "invoke T Op_A7 s = success_only (A7 T) s"
| "invoke T Op_A8 s = success_only (A8 T) s"
| "invoke T Op_A9 s = success_only (A9 T) s"
| "invoke T Op_A10 s = success_only (A10 T) s"

text \<open>The response of the read endpoint: the content and the media type.\<close>

datatype response = Response string string

text \<open>\<open>read_file\<close> (lines 68 to 79): no call of \<open>validate_path\<close>; the path is opened after the replacement.\<close>

definition read_file :: "(nat \<Rightarrow> string \<Rightarrow> string) \<Rightarrow> string \<Rightarrow> world \<Rightarrow> exn + response" where
  "read_file http_str path w =
     (let relative_path = replace ''/data/'' ''data/'' path
      in case fs w (Str relative_path) of
           Inr content \<Rightarrow> Inr (Response content ''text/plain'')
         | Inl (FileNotFoundError m) \<Rightarrow> Inl (HTTPException 404 (''File not found: '' @ path))
         | Inl e \<Rightarrow> Inl (HTTPException 500 (str_exc http_str e)))"

section \<open>Example inputs\<close>

text \<open>A spy handler: its state counts the calls that reached its body.\<close>

definition spy :: "nat pyfunc" where
  "spy = \<lparr>fname = ''spy'', fcall = (\<lambda>args kwargs n. (Inr NoneV, Suc n))\<rparr>"

text \<open>
  The text of an \<open>HTTPException\<close> as Starlette, on which FastAPI builds, defines it:
  the status code, a colon and the detail.
\<close>

definition starlette_http_str :: "nat \<Rightarrow> string \<Rightarrow> string" where
  "starlette_http_str code detail = str_nat code @ '': '' @ detail"

text \<open>A world with no file, where every directory and file can be written and every request answers.\<close>

definition empty_world :: world where
  "empty_world =
     \<lparr>fs = (\<lambda>x. Inl (FileNotFoundError ''No such file or directory'')),
      mkdir_ok = (\<lambda>d. True),
      writable = (\<lambda>x. True),
      http = (\<lambda>u. Inr ''{}''),
      whisper = (\<lambda>a. Inr ''hello''),
      importable = (\<lambda>m. True),
      requests_sent = [],
      stdout = []\<rparr>"

text \<open>The same world with one file outside the sandbox.\<close>

definition world_with_passwd :: world where
  "world_with_passwd =
     empty_world\<lparr>fs := (fs empty_world)(Str ''/etc/passwd'' := Inr ''root:x:0:0'')\<rparr>"

text \<open>
  Ten task functions on a counter: the first returns a value, the second and the
  eighth raise, each adds its number to the counter.
\<close>

definition example_tasks :: "nat tasksA" where
  "example_tasks =
     \<lparr>A1 = (\<lambda>n. (Inr (Str ''uv installed''), n + 1)),
      A2 = (\<lambda>n. (Inl (OtherException ''boom''), n + 2)),
      A3 = (\<lambda>n. (Inr NoneV, n + 3)),
      A4 = (\<lambda>n. (Inr NoneV, n + 4)),
      A5 = (\<lambda>n. (Inr NoneV, n + 5)),
      A6 = (\<lambda>n. (Inr NoneV, n + 6)),
      A7 = (\<lambda>n. (Inr NoneV, n + 7)),
      A8 = (\<lambda>n. (Inl (NotImplementedError ''A8''), n + 8)),
      A9 = (\<lambda>n. (Inr NoneV, n + 9)),
      A10 = (\<lambda>n. (Inr NoneV, n + 10))\<rparr>"

text \<open>A description that holds the markers of the first two operations.\<close>

definition both_markers :: string where
  "both_markers = ''  First '' @ install_uv @ '', then format.md  ''"




section \<open>Properties of the sandbox predicate\<close>

lemma normpath_data: "normpath ''/data'' = ''/data''"
  by (simp add: normpath_def initial_slashes_def startswith_def sep_def)

lemma abspath_data: "abspath getcwd ''/data'' = Inr ''/data''"
  by (simp add: abspath_def isabs_def startswith_def sep_def normpath_data)

lemma validate_path_eq:
  "validate_path getcwd p =
     (case abspath getcwd p of Inl e \<Rightarrow> False | Inr a \<Rightarrow> startswith a ''/data'')"
  by (simp add: validate_path_def abspath_data split: sum.splits)

lemma startswith_append: "startswith p (a @ b) \<Longrightarrow> startswith p a"
proof -
  assume h: "startswith p (a @ b)"
  have "take (length a) (take (length (a @ b)) p) = take (length a) (a @ b)"
    using h by (simp add: startswith_def)
  then show ?thesis
    by (simp add: startswith_def min_def)
qed

lemmas path_eval = validate_path_eq abspath_def isabs_def startswith_def endswith_def sep_def
  normpath_def initial_slashes_def join2_def

lemma etc_passwd_outside: "\<not> validate_path (Some ''/app'') ''/etc/passwd''"
  by (simp add: path_eval)

lemma data_in_inside: "validate_path (Some ''/app'') ''/data/in.txt''"
  by (simp add: path_eval)


text \<open>The code accepts every path the predicate of the specification accepts.\<close>

lemma isWithinSandbox_validate_path: "isWithinSandbox getcwd p \<Longrightarrow> validate_path getcwd p"
proof -
  assume "isWithinSandbox getcwd p"
  then obtain c where c: "abspath getcwd p = Inr c" "is_root_or_descendant ''/data'' c"
    by (auto simp: isWithinSandbox_def split: sum.splits)
  from c(2) have "c = ''/data'' \<or> startswith c (''/data'' @ [sep])"
    by (simp add: is_root_or_descendant_def)
  then have "startswith c ''/data''"
  proof
    assume "c = ''/data''"
    then show ?thesis by (simp add: startswith_def)
  next
    assume "startswith c (''/data'' @ [sep])"
    then show ?thesis by (rule startswith_append)
  qed
  with c(1) show ?thesis
    by (simp add: validate_path_eq)
qed

text \<open>
  The other cases the specification lists: the root is accepted and a traversal out of
  the root is refused, whatever the working directory; the empty string stands for the
  working directory, so it is refused from \<open>/app\<close> and accepted from \<open>/data\<close>.
\<close>

lemma validate_path_listed_cases:
  "validate_path getcwd ''/data''"
  "\<not> validate_path getcwd ''/data/../etc''"
  "\<not> validate_path (Some ''/app'') []"
  "validate_path (Some ''/data'') []"
  by (simp_all add: path_eval)

text \<open>
  Claim C1. The claim asks that \<open>validate_path\<close> hold of a path exactly when its
  canonical absolute form is \<open>/data\<close> or a descendant of it, and names
  \<open>/data_evil/x\<close> as a path that must give False. The code compares text: for every
  working directory it accepts \<open>/data_evil/x\<close>, which the predicate of the
  specification refuses.
\<close>

theorem validate_path_accepts_prefix_sibling:
  "validate_path getcwd ''/data_evil/x'' \<and> \<not> isWithinSandbox getcwd ''/data_evil/x''"
  by (simp add: path_eval isWithinSandbox_def is_root_or_descendant_def)

section \<open>Properties of the security gate\<close>

lemma check_args_rejects:
  "Str a \<in> set vs \<Longrightarrow> sep \<in> set a \<Longrightarrow> \<not> validate_path getcwd a \<Longrightarrow>
   \<exists>b. Str b \<in> set vs \<and> sep \<in> set b \<and> \<not> validate_path getcwd b \<and>
       check_args getcwd vs = Some (access_denied b)"
  by (induction getcwd vs rule: check_args.induct) auto

lemma check_args_Some:
  "check_args getcwd vs = Some e \<Longrightarrow>
   \<exists>b. Str b \<in> set vs \<and> sep \<in> set b \<and> \<not> validate_path getcwd b \<and> e = access_denied b"
  by (induction getcwd vs rule: check_args.induct) (auto split: if_splits)

lemma check_args_None:
  "(\<And>a. Str a \<in> set vs \<Longrightarrow> sep \<in> set a \<Longrightarrow> validate_path getcwd a) \<Longrightarrow>
   check_args getcwd vs = None"
  by (induction getcwd vs rule: check_args.induct) auto

text \<open>
  Claim C2. When some argument of a call of a wrapped handler, positional or keyword, is
  a string that holds the path separator and fails \<open>validate_path\<close>, the call raises
  the PermissionError of such an argument and the state is the state before the call:
  this holds of every handler \<open>func\<close>, so its body has not run and nothing was written.
\<close>

theorem security_check_rejects_before_call:
  assumes "Str a \<in> set (args @ map snd kwargs)" and "sep \<in> set a"
    and "\<not> validate_path getcwd a"
  shows "\<exists>b. Str b \<in> set (args @ map snd kwargs) \<and> sep \<in> set b \<and> \<not> validate_path getcwd b \<and>
           fcall (security_check getcwd func) args kwargs s = (Inl (access_denied b), s)"
proof -
  from check_args_rejects [OF assms] obtain b where
    b: "Str b \<in> set (args @ map snd kwargs)" "sep \<in> set b" "\<not> validate_path getcwd b"
       "check_args getcwd (args @ map snd kwargs) = Some (access_denied b)"
    by blast
  then show ?thesis
    by (auto simp: security_check_def)
qed

text \<open>
  The spy handler called through the gate with the save path \<open>/etc/passwd\<close>: the
  call is rejected and the counter of the spy stays at 0.
\<close>

theorem security_check_rejects_before_call_witness:
  "\<not> validate_path (Some ''/app'') ''/etc/passwd'' \<and>
   fcall (security_check (Some ''/app'') spy) [Str ''report'']
     [(''save_path'', Str ''/etc/passwd'')] 0
     = (Inl (access_denied ''/etc/passwd''), 0)"
proof -
  have "\<exists>b. Str b \<in> set ([Str ''report''] @ map snd [(''save_path'', Str ''/etc/passwd'')]) \<and>
          sep \<in> set b \<and> \<not> validate_path (Some ''/app'') b \<and>
          fcall (security_check (Some ''/app'') spy) [Str ''report'']
            [(''save_path'', Str ''/etc/passwd'')] 0 = (Inl (access_denied b), 0)"
    by (rule security_check_rejects_before_call [of "''/etc/passwd''"])
       (simp_all add: etc_passwd_outside sep_def)
  then obtain b where
    b: "Str b \<in> set ([Str ''report''] @ map snd [(''save_path'', Str ''/etc/passwd'')])"
       "sep \<in> set b"
    and r: "fcall (security_check (Some ''/app'') spy) [Str ''report'']
              [(''save_path'', Str ''/etc/passwd'')] 0 = (Inl (access_denied b), 0)"
    by blast
  from b have "b = ''/etc/passwd''"
    by (auto simp: sep_def)
  with r etc_passwd_outside show ?thesis
    by simp
qed

text \<open>
  Claim C7. When every string argument that holds the path separator passes
  \<open>validate_path\<close>, the call of the wrapped handler is the call of the handler on the
  same positional and keyword arguments and the same state: the same value or exception
  and the same new state. The wrapper also keeps the name of the handler.
\<close>

theorem security_check_passes_through:
  assumes "\<And>a. Str a \<in> set (args @ map snd kwargs) \<Longrightarrow> sep \<in> set a \<Longrightarrow> validate_path getcwd a"
  shows "fcall (security_check getcwd func) args kwargs s = fcall func args kwargs s
         \<and> fname (security_check getcwd func) = fname func"
  using check_args_None [of "args @ map snd kwargs" getcwd] assms
  by (simp add: security_check_def)

theorem security_check_passes_through_witness:
  "validate_path (Some ''/app'') ''/data/in.txt'' \<and>
   fcall (security_check (Some ''/app'') spy) [Str ''/data/in.txt'', IntV 3]
     [(''out'', Str ''data.txt'')] 0
     = (Inr NoneV, 1)"
proof -
  have h: "\<And>a. Str a \<in> set ([Str ''/data/in.txt'', IntV 3] @ map snd [(''out'', Str ''data.txt'')])
             \<Longrightarrow> sep \<in> set a \<Longrightarrow> validate_path (Some ''/app'') a"
    by (auto simp: data_in_inside sep_def)
  from security_check_passes_through
    [of "[Str ''/data/in.txt'', IntV 3]" "[(''out'', Str ''data.txt'')]" "Some ''/app''" spy 0, OF h]
  show ?thesis
    by (simp add: spy_def data_in_inside)
qed

lemma py_in_append: "py_in a (p @ a @ q)"
proof (induction p)
  case Nil
  have "startswith (a @ q) a"
    by (simp add: startswith_def)
  then show ?case
    by (cases "a @ q") simp_all
next
  case (Cons c p)
  then show ?case by simp
qed

text \<open>
  Claim C8, as the claim states it, fails: the PermissionError of the gate names the
  argument only. Here the gate rejects a call of \<open>transcribe_audio\<close>, and the name of
  the handler does not occur in the message.
\<close>

theorem rejection_does_not_name_handler:
  "fname (transcribe_audio (Some ''/app'') starlette_http_str) = ''transcribe_audio'' \<and>
   fcall (transcribe_audio (Some ''/app'') starlette_http_str)
      [Str ''/etc/passwd'', Str ''/data/out.txt''] [] empty_world
     = (Inl (PermissionError ''Access denied: /etc/passwd is outside /data directory''),
        empty_world) \<and>
   \<not> py_in ''transcribe_audio'' ''Access denied: /etc/passwd is outside /data directory''"
  by (simp add: transcribe_audio_def security_check_def transcribe_audio_func_def
      etc_passwd_outside sep_def access_denied_def startswith_def)

text \<open>
  Claim C8, amended. Whenever the gate rejects a call, the failure is the
  PermissionError whose message is \<open>Access denied: \<close>, the offending argument, and
  \<open> is outside /data directory\<close>: the argument occurs in the message, and the failure
  is the same whatever handler was about to run (\<open>f\<close> or \<open>g\<close>).
\<close>

theorem rejection_names_argument:
  assumes "check_args getcwd (args @ map snd kwargs) = Some e"
  shows "\<exists>a. Str a \<in> set (args @ map snd kwargs) \<and> sep \<in> set a \<and> \<not> validate_path getcwd a \<and>
           e = PermissionError (''Access denied: '' @ a @ '' is outside /data directory'') \<and>
           py_in a (str_exc hs e) \<and>
           fcall (security_check getcwd f) args kwargs s = (Inl e, s) \<and>
           fcall (security_check getcwd g) args kwargs s = (Inl e, s)"
proof -
  from check_args_Some [OF assms] obtain a where
    a: "Str a \<in> set (args @ map snd kwargs)" "sep \<in> set a" "\<not> validate_path getcwd a"
       "e = access_denied a"
    by blast
  have "py_in a (str_exc hs e)"
    using a(4) py_in_append [of a "''Access denied: ''" "'' is outside /data directory''"]
    by (simp add: access_denied_def)
  with a assms show ?thesis
    by (auto simp: security_check_def access_denied_def)
qed

theorem rejection_names_argument_witness:
  "check_args (Some ''/app'') ([Str ''/etc/passwd''] @ map snd [])
     = Some (access_denied ''/etc/passwd'') \<and>
   py_in ''/etc/passwd'' (str_exc starlette_http_str (access_denied ''/etc/passwd'')) \<and>
   fcall (security_check (Some ''/app'') spy) [Str ''/etc/passwd''] [] 0
     = (Inl (access_denied ''/etc/passwd''), 0)"
proof -
  have h: "check_args (Some ''/app'') ([Str ''/etc/passwd''] @ map snd [])
             = Some (access_denied ''/etc/passwd'')"
    by (simp add: etc_passwd_outside sep_def)
  from rejection_names_argument [OF h, of starlette_http_str spy 0 spy] h show ?thesis
    by (auto simp: access_denied_def)
qed



section \<open>Properties of the transcription handler\<close>



section \<open>Properties of the read endpoint\<close>

text \<open>
  Claim C3, as the claim states it, fails: \<open>read_file\<close> makes no sandbox check. A
  path outside the sandbox, which \<open>validate_path\<close> refuses, is opened and its content
  returned.
\<close>

theorem read_file_serves_outside_sandbox:
  "\<not> validate_path (Some ''/app'') ''/etc/passwd'' \<and>
   read_file starlette_http_str ''/etc/passwd'' world_with_passwd
     = Inr (Response ''root:x:0:0'' ''text/plain'')"
  by (simp add: etc_passwd_outside read_file_def replace_def startswith_def
      world_with_passwd_def empty_world_def)

text \<open>
  Claim C3, amended. The read endpoint applies no sandbox check: for every path, inside
  the sandbox or not, it opens the path with every \<open>/data/\<close> replaced by \<open>data/\<close>;
  it returns the content when the file can be read, the not-found signal (status 404,
  naming the requested path) when the file does not exist, and status 500 for any
  other failure; it never returns a denial (no PermissionError, no status 403).
\<close>

theorem read_file_opens_without_check:
  "(fs w (Str (replace ''/data/'' ''data/'' path)) = Inr content \<longrightarrow>
      read_file hs path w = Inr (Response content ''text/plain''))
   \<and> (fs w (Str (replace ''/data/'' ''data/'' path)) = Inl (FileNotFoundError m) \<longrightarrow>
      read_file hs path w = Inl (HTTPException 404 (''File not found: '' @ path)))
   \<and> ((\<exists>e. fs w (Str (replace ''/data/'' ''data/'' path)) = Inl e \<and>
          (\<forall>m. e \<noteq> FileNotFoundError m)) \<longrightarrow>
      (\<exists>d. read_file hs path w = Inl (HTTPException 500 d)))
   \<and> read_file hs path w \<noteq> Inl (PermissionError m')
   \<and> read_file hs path w \<noteq> Inl (HTTPException 403 d')"
  by (auto simp: read_file_def Let_def split: sum.splits exn.splits)

text \<open>
  A file outside the sandbox is served, and a missing file inside the sandbox gives
  the not-found signal.
\<close>

theorem read_file_opens_without_check_witness:
  "read_file starlette_http_str ''/etc/passwd'' world_with_passwd
     = Inr (Response ''root:x:0:0'' ''text/plain'') \<and>
   validate_path (Some ''/app'') ''/data/missing.txt'' \<and>
   read_file starlette_http_str ''/data/missing.txt'' world_with_passwd
     = Inl (HTTPException 404 ''File not found: /data/missing.txt'')"
proof -
  have r1: "replace ''/data/'' ''data/'' ''/etc/passwd'' = ''/etc/passwd''"
    by (simp add: replace_def startswith_def)
  have r2: "replace ''/data/'' ''data/'' ''/data/missing.txt'' = ''data/missing.txt''"
    by (simp add: replace_def startswith_def)
  have f1: "fs world_with_passwd (Str (replace ''/data/'' ''data/'' ''/etc/passwd''))
              = Inr ''root:x:0:0''"
    by (simp add: r1 world_with_passwd_def)
  have f2: "fs world_with_passwd (Str (replace ''/data/'' ''data/'' ''/data/missing.txt''))
              = Inl (FileNotFoundError ''No such file or directory'')"
    by (simp add: r2 world_with_passwd_def empty_world_def)
  have v: "validate_path (Some ''/app'') ''/data/missing.txt''"
    by (simp add: path_eval)
  from read_file_opens_without_check
         [of world_with_passwd "''/etc/passwd''" "''root:x:0:0''" starlette_http_str,
          THEN conjunct1]
       read_file_opens_without_check
         [of world_with_passwd "''/data/missing.txt''" _ starlette_http_str
            "''No such file or directory''", THEN conjunct2, THEN conjunct1]
       f1 f2 v
  show ?thesis by simp
qed

section \<open>Properties of the dispatcher\<close>









lemma run_task_try_resolve:
  "run_task_try T q s =
     (case resolve registry (strip (case q of None \<Rightarrow> [] | Some t \<Rightarrow> t)) of
        None \<Rightarrow> (Inl (HTTPException 400 ''Unknown task''), s)
      | Some spec \<Rightarrow> invoke T (snd spec) s)"
  by (simp add: run_task_try_def resolve_def registry_def spec_matches_def Let_def)




lemma resolve_Some:
  "resolve reg d = Some spec \<Longrightarrow>
   \<exists>pre post. reg = pre @ spec # post \<and> spec_matches d spec \<and>
      list_all (\<lambda>x. \<not> spec_matches d x) pre"
proof (induction reg)
  case Nil
  then show ?case by (simp add: resolve_def)
next
  case (Cons x reg)
  show ?case
  proof (cases "spec_matches d x")
    case True
    with Cons.prems have "x = spec" by (simp add: resolve_def)
    with True have "x # reg = [] @ spec # reg \<and> spec_matches d spec \<and>
        list_all (\<lambda>x. \<not> spec_matches d x) []" by simp
    then show ?thesis by blast
  next
    case False
    with Cons.prems have "resolve reg d = Some spec" by (simp add: resolve_def)
    from Cons.IH [OF this] obtain pre post where
      "reg = pre @ spec # post" "spec_matches d spec" "list_all (\<lambda>x. \<not> spec_matches d x) pre"
      by blast
    with False have "x # reg = (x # pre) @ spec # post \<and> spec_matches d spec \<and>
        list_all (\<lambda>x. \<not> spec_matches d x) (x # pre)" by simp
    then show ?thesis by blast
  qed
qed

lemma resolve_None:
  "resolve reg d = None \<Longrightarrow> list_all (\<lambda>x. \<not> spec_matches d x) reg"
  by (induction reg) (auto simp: resolve_def split: if_splits)

text \<open>
  Claim C5. \<open>run_task\<close> is a function of the trimmed description: it runs the
  operation that \<open>resolve\<close> selects in the registry, and raises for an unknown task
  when there is none. \<open>resolve\<close> returns the first specification, in the order of
  registration, whose markers all occur in the description: every specification
  registered before it fails to match, so the first registered of two matching
  specifications wins; it returns nothing only when no specification matches.
\<close>

theorem run_task_first_registered_match:
  "run_task hs T q s =
     (case resolve registry (strip (case q of None \<Rightarrow> [] | Some t \<Rightarrow> t)) of
        None \<Rightarrow> (Inl (HTTPException 400 (hs 400 ''Unknown task'')), s)
      | Some spec \<Rightarrow>
          (case invoke T (snd spec) s of
             (Inl e, s') \<Rightarrow> (Inl (HTTPException 400 (str_exc hs e)), s')
           | (Inr env, s') \<Rightarrow> (Inr env, s')))
   \<and> (resolve reg d = Some spec \<longrightarrow>
        (\<exists>pre post. reg = pre @ spec # post \<and> spec_matches d spec \<and>
           list_all (\<lambda>x. \<not> spec_matches d x) pre))
   \<and> (resolve reg d = None \<longrightarrow> list_all (\<lambda>x. \<not> spec_matches d x) reg)"
  using resolve_Some [of reg d spec] resolve_None [of reg d]
  by (simp add: run_task_def run_task_try_resolve split: option.splits)

theorem run_task_first_registered_match_witness:
  "spec_matches (strip both_markers) ([install_uv], Op_A1) \<and>
   spec_matches (strip both_markers) ([''format.md''], Op_A2) \<and>
   resolve registry (strip both_markers) = Some ([install_uv], Op_A1) \<and>
   run_task starlette_http_str example_tasks (Some both_markers) 0
     = (Inr \<lparr>status = ''success'', result = Some (Str ''uv installed'')\<rparr>, 1)"
proof -
  have s: "strip both_markers = ''First '' @ install_uv @ '', then format.md''"
    by (simp add: both_markers_def strip_def isspace_def install_uv_def)
  have m1: "spec_matches (strip both_markers) ([install_uv], Op_A1)"
    unfolding s by (simp add: spec_matches_def install_uv_def startswith_def)
  have m2: "spec_matches (strip both_markers) ([''format.md''], Op_A2)"
    unfolding s by (simp add: spec_matches_def install_uv_def startswith_def)
  have r: "resolve registry (strip both_markers) = Some ([install_uv], Op_A1)"
    using m1 by (simp add: resolve_def registry_def)
  from run_task_first_registered_match [of starlette_http_str example_tasks "Some both_markers" 0, THEN conjunct1] r m1 m2
  show ?thesis
    by (simp add: success_result_def example_tasks_def)
qed


section \<open>Properties of the CSV filter\<close>











end
